theory Spec2Isabelle
  imports Complex_Main "HOL-Library.Word"
begin

section \<open>DeeJay: time-stretch/pitch processor with latency compensation\<close>

text \<open>
  A shallow embedding of \<^verbatim>\<open>TimeStretchPitchProcessor\<close> and
  \<^verbatim>\<open>LatencyCompensatedProcessor\<close>.

  \<^item> \<^verbatim>\<open>size_t\<close> is a 64-bit word: \<open>+\<close>, \<open>-\<close> and \<open>*\<close> wrap around, \<open>min\<close> and
    \<open><\<close> are unsigned.
  \<^item> \<^verbatim>\<open>int\<close> is \<open>int\<close>; \<^verbatim>\<open>static_cast<size_t>\<close> of an \<^verbatim>\<open>int\<close> is \<open>word_of_int\<close>
    (a negative value becomes a huge unsigned one).
  \<^item> An audio sample (\<^verbatim>\<open>float\<close>) is only stored and copied, never computed with,
    so it is its IEEE-754 binary32 bit pattern; \<^verbatim>\<open>0.0f\<close> is the all-zero pattern.
  \<^item> A \<^verbatim>\<open>double\<close> or \<^verbatim>\<open>float\<close> parameter is the real number it denotes; the
    conversions \<^verbatim>\<open>float\<close> to \<^verbatim>\<open>double\<close> and \<^verbatim>\<open>int\<close> to \<^verbatim>\<open>double\<close> are exact.
  \<^item> A \<^verbatim>\<open>std::vector<float>\<close> is a list. Memory is unbounded: an allocation
    never fails (\<^verbatim>\<open>std::bad_alloc\<close> and \<^verbatim>\<open>std::length_error\<close> are not modelled).
  \<^item> The \<^verbatim>\<open>const float *input\<close> of a call is the list of the samples the caller's
    buffer holds from that address on; reading past its end is undefined behaviour,
    which is the result \<open>None\<close>.
  \<^item> Each method takes the object and returns the updated object. A data member
    \<^verbatim>\<open>name_\<close> of class \<^verbatim>\<open>RubberBandAdapter\<close>, \<^verbatim>\<open>TimeStretchPitchProcessor\<close> or
    \<^verbatim>\<open>LatencyCompensatedProcessor\<close> is the field \<open>rba_name\<close>, \<open>tsp_name\<close> or
    \<open>lcp_name\<close>.
  \<^item> \<^verbatim>\<open>DEEJAY_HAVE_RUBBERBAND\<close> selects at compile time between a build on the
    external Rubber Band library and a passthrough build. The constructor takes
    the flag; the library, which is not part of the repository, is a parameter
    \<open>L\<close> of every operation that reaches it.
\<close>

type_synonym size_t = "64 word"
type_synonym sample = "32 word"

definition size_t_of_int :: "int \<Rightarrow> size_t" where
  "size_t_of_int i = word_of_int i"

text \<open>\<^verbatim>\<open>static_cast<size_t>(d)\<close> for a \<^verbatim>\<open>double\<close>: truncation towards zero. (Outside
  the range of \<^verbatim>\<open>size_t\<close> the C++ conversion is undefined; here it wraps.)\<close>

definition size_t_of_double :: "real \<Rightarrow> size_t" where
  "size_t_of_double d = word_of_int (if 0 \<le> d then \<lfloor>d\<rfloor> else \<lceil>d\<rceil>)"

text \<open>\<^verbatim>\<open>v.resize(n, 0.0f)\<close>: truncates, or pads with zero samples.\<close>

definition resize :: "sample list \<Rightarrow> size_t \<Rightarrow> sample list" where
  "resize v n = take (unat n) v @ replicate (unat n - length v) 0"

text \<open>\<^verbatim>\<open>v.size()\<close> as a \<^verbatim>\<open>size_t\<close>.\<close>

definition size_of :: "sample list \<Rightarrow> size_t" where
  "size_of v = of_nat (length v)"

subsection \<open>TimeStretchPitchProcessor.h\<close>

record StretchQuality =
  formantPreservation :: real
  transientSensitivity :: real
  highQuality :: bool

definition StretchQuality_default :: StretchQuality where
  "StretchQuality_default =
     \<lparr>formantPreservation = 0.5, transientSensitivity = 0.5, highQuality = True\<rparr>"

record Parameters =
  tempoRatio :: real
  pitchSemitones :: real
  quality :: StretchQuality

definition Parameters_default :: Parameters where
  "Parameters_default =
     \<lparr>tempoRatio = 1.0, pitchSemitones = 0.0, quality = StretchQuality_default\<rparr>"

record EndpointDescriptor =
  ident :: string
  label :: string
  minimum :: real
  maximum :: real
  defaultValue :: real
  integer :: bool
  description :: string

subsection \<open>The Rubber Band library (external)\<close>

text \<open>
  The operations of \<^verbatim>\<open>RubberBand::RubberBandStretcher\<close> that the adapter calls, on
  a stretcher state \<open>'e\<close>. A \<^verbatim>\<open>float *\<close> into a buffer is the offset from the
  buffer's start (\<open>None\<close> for a null pointer). \<open>retrieve\<close> is given the current
  contents of the storage it writes to and returns the new contents. The
  \<^verbatim>\<open>int options\<close> word of the constructor is the list of the enumerators or-ed into
  it, in the order of the code; their values belong to the library's header.
\<close>

datatype StretcherOption =
    OptionProcessRealTime
  | OptionPitchHighQuality
  | OptionThreadingAuto
  | OptionPitchHighSpeed
  | OptionTransientsSmooth
  | OptionFormantPreserved

type_synonym pointer = "size_t option"

record 'e RubberBandStretcher =
  make_stretcher :: "real \<Rightarrow> int \<Rightarrow> StretcherOption list \<Rightarrow> 'e"
  setPitchScale :: "real \<Rightarrow> 'e \<Rightarrow> 'e"
  setTimeRatio :: "real \<Rightarrow> 'e \<Rightarrow> 'e"
  stretcher_process :: "sample list \<Rightarrow> pointer list \<Rightarrow> size_t \<Rightarrow> bool \<Rightarrow> 'e \<Rightarrow> 'e"
  available :: "'e \<Rightarrow> int"
  retrieve :: "sample list \<Rightarrow> pointer list \<Rightarrow> size_t \<Rightarrow> 'e \<Rightarrow> sample list \<times> 'e"
  getLatency :: "'e \<Rightarrow> size_t"
  stretcher_reset :: "'e \<Rightarrow> 'e"

subsection \<open>TimeStretchPitchProcessor.cpp: RubberBandAdapter\<close>

definition semitonesToRatio :: "real \<Rightarrow> real" where
  "semitonesToRatio semitones = 2 powr (semitones / 12)"

text \<open>The \<^verbatim>\<open>float\<close> literal \<^verbatim>\<open>0.6f\<close>: the binary32 value nearest to 0.6.\<close>

definition float_0_6 :: real where
  "float_0_6 = 5033165 / 8388608"

record 'e RubberBandAdapter =
  rba_channelCount :: int
  rba_parameters :: Parameters
  rba_stretcher :: 'e

definition adapter_setParameters ::
  "'e RubberBandStretcher \<Rightarrow> Parameters \<Rightarrow> 'e RubberBandAdapter \<Rightarrow> 'e RubberBandAdapter" where
  "adapter_setParameters L parameters a =
     (let a1 = a\<lparr>rba_parameters := parameters\<rparr>;
          a2 = a1\<lparr>rba_stretcher :=
                 setPitchScale L (semitonesToRatio (pitchSemitones (rba_parameters a1)))
                   (rba_stretcher a1)\<rparr>
      in a2\<lparr>rba_stretcher :=
              setTimeRatio L (tempoRatio (rba_parameters a2)) (rba_stretcher a2)\<rparr>)"

definition adapter_options :: "Parameters \<Rightarrow> StretcherOption list" where
  "adapter_options parameters =
     [OptionProcessRealTime, OptionPitchHighQuality, OptionThreadingAuto]
     @ (if \<not> highQuality (quality parameters) then [OptionPitchHighSpeed] else [])
     @ (if transientSensitivity (quality parameters) > float_0_6
        then [OptionTransientsSmooth] else [])
     @ (if formantPreservation (quality parameters) > float_0_6
        then [OptionFormantPreserved] else [])"

definition new_RubberBandAdapter ::
  "'e RubberBandStretcher \<Rightarrow> real \<Rightarrow> int \<Rightarrow> Parameters \<Rightarrow> 'e RubberBandAdapter" where
  "new_RubberBandAdapter L sampleRate channelCount parameters =
     adapter_setParameters L parameters
       \<lparr>rba_channelCount = channelCount,
        rba_parameters = Parameters_default,
        rba_stretcher = make_stretcher L sampleRate channelCount (adapter_options parameters)\<rparr>"

text \<open>
  \<^verbatim>\<open>std::vector<float *> channels(channelCount_)\<close> followed by the loop
  \<^verbatim>\<open>channels[ch] = base + ch * n\<close> for \<^verbatim>\<open>ch\<close> from 0 below \<^verbatim>\<open>channelCount_\<close>.
\<close>

definition channel_pointers :: "int \<Rightarrow> size_t \<Rightarrow> pointer list" where
  "channel_pointers channelCount n =
     fold (\<lambda>ch channels. channels[ch := Some (of_nat ch * n)])
       [0 ..< nat channelCount]
       (replicate (unat (size_t_of_int channelCount)) None)"

text \<open>Writing through pointers into a vector's storage leaves its size unchanged.\<close>

definition overwrite :: "sample list \<Rightarrow> sample list \<Rightarrow> sample list" where
  "overwrite written storage = take (length storage) (written @ drop (length written) storage)"

definition adapter_process ::
  "'e RubberBandStretcher \<Rightarrow> sample list \<Rightarrow> size_t \<Rightarrow> sample list \<Rightarrow> 'e RubberBandAdapter
     \<Rightarrow> size_t \<times> sample list \<times> 'e RubberBandAdapter" where
  "adapter_process L input frames output a =
     (let channels = channel_pointers (rba_channelCount a) frames;
          st1 = stretcher_process L input channels frames False (rba_stretcher a);
          available = size_t_of_int (available L st1);
          output1 = resize output (available * size_t_of_int (rba_channelCount a));
          outputChannels = channel_pointers (rba_channelCount a) available;
          (written, st2) = retrieve L output1 outputChannels available st1
      in (available, overwrite written output1, a\<lparr>rba_stretcher := st2\<rparr>))"

definition adapter_latency :: "'e RubberBandStretcher \<Rightarrow> 'e RubberBandAdapter \<Rightarrow> size_t" where
  "adapter_latency L a = getLatency L (rba_stretcher a)"

definition adapter_reset ::
  "'e RubberBandStretcher \<Rightarrow> 'e RubberBandAdapter \<Rightarrow> 'e RubberBandAdapter" where
  "adapter_reset L a = a\<lparr>rba_stretcher := stretcher_reset L (rba_stretcher a)\<rparr>"

subsection \<open>TimeStretchPitchProcessor.cpp: TimeStretchPitchProcessor\<close>

text \<open>
  The member that depends on the build: \<^verbatim>\<open>std::unique_ptr<RubberBandAdapter> processor_\<close>
  (possibly null) with Rubber Band, \<^verbatim>\<open>size_t simulatedLatencySamples_\<close> without.
  The placeholder latency \<^verbatim>\<open>static_cast<size_t>(sampleRate_ * 0.01)\<close> is computed on the
  reals: the code multiplies by the binary64 value of 0.01 and rounds the product
  before truncating, which is not modelled. At 48000 and 44100 both give the same,
  480 and 441; at very large rates (such as \<open>2 ^ 60\<close>) they can differ by one. No
  theorem below states the latency of such a rate.
\<close>

datatype 'e engine =
    Adapter "'e RubberBandAdapter option"
  | Simulated size_t

record 'e TimeStretchPitchProcessor =
  tsp_sampleRate :: real
  tsp_channelCount :: int
  tsp_parameters :: Parameters
  tsp_engine :: "'e engine"

definition configureProcessor ::
  "'e RubberBandStretcher \<Rightarrow> 'e TimeStretchPitchProcessor \<Rightarrow> 'e TimeStretchPitchProcessor" where
  "configureProcessor L p =
     (case tsp_engine p of
        Adapter _ \<Rightarrow>
          p\<lparr>tsp_engine := Adapter (Some
               (new_RubberBandAdapter L (tsp_sampleRate p) (tsp_channelCount p) (tsp_parameters p)))\<rparr>
      | Simulated _ \<Rightarrow>
          p\<lparr>tsp_engine := Simulated (size_t_of_double (tsp_sampleRate p * 0.01))\<rparr>)"

definition new_TimeStretchPitchProcessor ::
  "'e RubberBandStretcher \<Rightarrow> bool \<Rightarrow> real \<Rightarrow> int \<Rightarrow> Parameters
     \<Rightarrow> 'e TimeStretchPitchProcessor" where
  "new_TimeStretchPitchProcessor L have_rubberband sampleRate channelCount defaults =
     configureProcessor L
       \<lparr>tsp_sampleRate = sampleRate, tsp_channelCount = channelCount, tsp_parameters = defaults,
        tsp_engine = (if have_rubberband then Adapter None else Simulated 0)\<rparr>"

definition setParameters ::
  "'e RubberBandStretcher \<Rightarrow> Parameters \<Rightarrow> 'e TimeStretchPitchProcessor
     \<Rightarrow> 'e TimeStretchPitchProcessor" where
  "setParameters L parameters p =
     (let p1 = p\<lparr>tsp_parameters := parameters\<rparr>
      in case tsp_engine p1 of
           Adapter (Some a) \<Rightarrow>
             p1\<lparr>tsp_engine := Adapter (Some (adapter_setParameters L (tsp_parameters p1) a))\<rparr>
         | Adapter None \<Rightarrow> p1
         | Simulated _ \<Rightarrow>
             p1\<lparr>tsp_engine := Simulated (size_t_of_double (tsp_sampleRate p1 * 0.01))\<rparr>)"

definition getParameters :: "'e TimeStretchPitchProcessor \<Rightarrow> Parameters" where
  "getParameters p = tsp_parameters p"

definition describeEndpoints :: "'e TimeStretchPitchProcessor \<Rightarrow> EndpointDescriptor list" where
  "describeEndpoints p =
     [\<lparr>ident = ''tempo'', label = ''Tempo Ratio'', minimum = 0.5, maximum = 2.5,
       defaultValue = tempoRatio (tsp_parameters p), integer = False,
       description = ''Time-stretch control exposed to slider and numeric input.''\<rparr>,
      \<lparr>ident = ''pitch'', label = ''Pitch (semitones)'', minimum = -12.0, maximum = 12.0,
       defaultValue = pitchSemitones (tsp_parameters p), integer = False,
       description = ''Pitch shift in semitones, mapped to rotary or numeric control.''\<rparr>,
      \<lparr>ident = ''formant'', label = ''Formant Preservation'', minimum = 0.0, maximum = 1.0,
       defaultValue = formantPreservation (quality (tsp_parameters p)), integer = False,
       description = ''Blend between neutral and formant-preserving processing.''\<rparr>,
      \<lparr>ident = ''transient'', label = ''Transient Sensitivity'', minimum = 0.0, maximum = 1.0,
       defaultValue = transientSensitivity (quality (tsp_parameters p)), integer = False,
       description = ''Higher values keep percussive edges sharper.''\<rparr>]"

text \<open>
  \<open>process\<close> returns the frame count, the new contents of \<^verbatim>\<open>output\<close> and the
  updated object. The passthrough build reads \<^verbatim>\<open>samples\<close> floats from \<^verbatim>\<open>input\<close>.
  With Rubber Band, \<^verbatim>\<open>processor_\<close> is not null once \<open>configureProcessor\<close> has run,
  so the case of a null pointer being dereferenced (\<open>None\<close>) does not arise.
\<close>

definition process ::
  "'e RubberBandStretcher \<Rightarrow> sample list \<Rightarrow> size_t \<Rightarrow> sample list
     \<Rightarrow> 'e TimeStretchPitchProcessor
     \<Rightarrow> (size_t \<times> sample list \<times> 'e TimeStretchPitchProcessor) option" where
  "process L input frames output p =
     (case tsp_engine p of
        Adapter _ \<Rightarrow>
          (let p1 = (if tsp_engine p = Adapter None then configureProcessor L p else p)
           in case tsp_engine p1 of
                Adapter (Some a) \<Rightarrow>
                  (let (n, output1, a1) = adapter_process L input frames output a
                   in Some (n, output1, p1\<lparr>tsp_engine := Adapter (Some a1)\<rparr>))
              | _ \<Rightarrow> None)
      | Simulated _ \<Rightarrow>
          (let samples = frames * size_t_of_int (tsp_channelCount p)
           in if unat samples \<le> length input
              then Some (frames, take (unat samples) input, p)
              else None))"

definition getLatencySamples ::
  "'e RubberBandStretcher \<Rightarrow> 'e TimeStretchPitchProcessor \<Rightarrow> size_t" where
  "getLatencySamples L p =
     (case tsp_engine p of
        Adapter (Some a) \<Rightarrow> adapter_latency L a
      | Adapter None \<Rightarrow> 0
      | Simulated simulatedLatencySamples \<Rightarrow> simulatedLatencySamples)"

definition reset ::
  "'e RubberBandStretcher \<Rightarrow> 'e TimeStretchPitchProcessor \<Rightarrow> 'e TimeStretchPitchProcessor" where
  "reset L p =
     (case tsp_engine p of
        Adapter (Some a) \<Rightarrow> p\<lparr>tsp_engine := Adapter (Some (adapter_reset L a))\<rparr>
      | _ \<Rightarrow> p)"

subsection \<open>LatencyCompensatedProcessor\<close>

record Controls =
  controls_tempoRatio :: real
  controls_pitchSemitones :: real
  manualLatencySamples :: int

definition Controls_default :: Controls where
  "Controls_default =
     \<lparr>controls_tempoRatio = 1.0, controls_pitchSemitones = 0.0, manualLatencySamples = 0\<rparr>"

record ControlEndpoint =
  control_id :: string
  control_label :: string
  control_type :: string
  control_minimum :: real
  control_maximum :: real
  control_defaultValue :: real
  control_description :: string

record 'e LatencyCompensatedProcessor =
  lcp_processor :: "'e TimeStretchPitchProcessor"
  lcp_controls :: Controls
  lcp_pendingLatencySamples :: size_t
  lcp_channelCount :: int

definition totalLatencySamples ::
  "'e RubberBandStretcher \<Rightarrow> 'e LatencyCompensatedProcessor \<Rightarrow> size_t" where
  "totalLatencySamples L s =
     getLatencySamples L (lcp_processor s)
       + size_t_of_int (max 0 (manualLatencySamples (lcp_controls s)))"

definition refreshPendingLatency ::
  "'e RubberBandStretcher \<Rightarrow> 'e LatencyCompensatedProcessor
     \<Rightarrow> 'e LatencyCompensatedProcessor" where
  "refreshPendingLatency L s = s\<lparr>lcp_pendingLatencySamples := totalLatencySamples L s\<rparr>"

definition new_LatencyCompensatedProcessor ::
  "'e RubberBandStretcher \<Rightarrow> bool \<Rightarrow> real \<Rightarrow> int \<Rightarrow> 'e LatencyCompensatedProcessor" where
  "new_LatencyCompensatedProcessor L have_rubberband sampleRate channelCount =
     refreshPendingLatency L
       \<lparr>lcp_processor =
          new_TimeStretchPitchProcessor L have_rubberband sampleRate channelCount
            Parameters_default,
        lcp_controls = Controls_default,
        lcp_pendingLatencySamples = 0,
        lcp_channelCount = channelCount\<rparr>"

definition updateControls ::
  "'e RubberBandStretcher \<Rightarrow> Controls \<Rightarrow> 'e LatencyCompensatedProcessor
     \<Rightarrow> 'e LatencyCompensatedProcessor" where
  "updateControls L controls s =
     (let s1 = s\<lparr>lcp_controls := controls\<rparr>;
          s2 = s1\<lparr>lcp_processor :=
                 setParameters L
                   \<lparr>tempoRatio = controls_tempoRatio controls,
                    pitchSemitones = controls_pitchSemitones controls,
                    quality = StretchQuality_default\<rparr>
                   (lcp_processor s1)\<rparr>
      in refreshPendingLatency L s2)"

definition currentControls :: "'e LatencyCompensatedProcessor \<Rightarrow> Controls" where
  "currentControls s = lcp_controls s"

text \<open>
  \<open>processBlock\<close> returns the frame count, the new contents of \<^verbatim>\<open>output\<close> and the
  updated object; \<open>output\<close> is what the caller's vector held before the call.
\<close>

definition processBlock ::
  "'e RubberBandStretcher \<Rightarrow> sample list \<Rightarrow> size_t \<Rightarrow> sample list
     \<Rightarrow> 'e LatencyCompensatedProcessor
     \<Rightarrow> (size_t \<times> sample list \<times> 'e LatencyCompensatedProcessor) option" where
  "processBlock L input frames output s =
     (case process L input frames [] (lcp_processor s) of
        None \<Rightarrow> None
      | Some (produced, processed, p1) \<Rightarrow>
          (let s1 = s\<lparr>lcp_processor := p1\<rparr>;
               output1 = [];
               samplesPerFrame = size_t_of_int (lcp_channelCount s1);
               pendingSamples = min (lcp_pendingLatencySamples s1) (produced * samplesPerFrame);
               (output2, s2) =
                 (if pendingSamples > 0
                  then (resize output1 pendingSamples,
                        s1\<lparr>lcp_pendingLatencySamples :=
                             lcp_pendingLatencySamples s1 - pendingSamples\<rparr>)
                  else (output1, s1));
               output3 = output2 @ processed;
               (output4, s4) =
                 (if lcp_pendingLatencySamples s2 > 0
                  then (resize output3 (size_of output3 + lcp_pendingLatencySamples s2),
                        s2\<lparr>lcp_pendingLatencySamples := 0\<rparr>)
                  else (output3, s2))
           in Some (produced, output4, s4)))"

definition controlEndpoints :: "'e LatencyCompensatedProcessor \<Rightarrow> ControlEndpoint list" where
  "controlEndpoints s =
     [\<lparr>control_id = ''tempo'', control_label = ''Tempo'', control_type = ''slider'',
       control_minimum = 0.5, control_maximum = 2.5,
       control_defaultValue = controls_tempoRatio (lcp_controls s),
       control_description = ''User-facing tempo slider bound to time-stretch ratio.''\<rparr>,
      \<lparr>control_id = ''pitch'', control_label = ''Pitch'', control_type = ''slider'',
       control_minimum = -12.0, control_maximum = 12.0,
       control_defaultValue = controls_pitchSemitones (lcp_controls s),
       control_description = ''Pitch slider or numeric input in semitones.''\<rparr>,
      \<lparr>control_id = ''manualLatency'', control_label = ''Manual Latency'',
       control_type = ''numeric'', control_minimum = 0.0, control_maximum = 4096.0,
       control_defaultValue = of_int (manualLatencySamples (lcp_controls s)),
       control_description =
         ''Additional latency compensation in samples, editable via numeric input.''\<rparr>]"

subsection \<open>Construction as an operation that may fail\<close>

text \<open>
  A constructor call either yields an object or throws. Neither constructor has a
  \<^verbatim>\<open>throw\<close> statement or a check of its arguments, so both always yield the object.
  (What the Rubber Band constructor does with its arguments belongs to the library.)
\<close>

datatype 'a construction =
    is_Constructed: Constructed (object: 'a)
  | is_Failed: Failed (message: string)

definition construct_TimeStretchPitchProcessor ::
  "'e RubberBandStretcher \<Rightarrow> bool \<Rightarrow> real \<Rightarrow> int \<Rightarrow> Parameters
     \<Rightarrow> 'e TimeStretchPitchProcessor construction" where
  "construct_TimeStretchPitchProcessor L have_rubberband sampleRate channelCount defaults =
     Constructed
       (new_TimeStretchPitchProcessor L have_rubberband sampleRate channelCount defaults)"

definition construct_LatencyCompensatedProcessor ::
  "'e RubberBandStretcher \<Rightarrow> bool \<Rightarrow> real \<Rightarrow> int
     \<Rightarrow> 'e LatencyCompensatedProcessor construction" where
  "construct_LatencyCompensatedProcessor L have_rubberband sampleRate channelCount =
     Constructed (new_LatencyCompensatedProcessor L have_rubberband sampleRate channelCount)"

subsection \<open>Sequences of calls\<close>

text \<open>
  A caller that makes one \<open>processBlock\<close> call after the other on the same object,
  with no other call in between; each element of \<open>calls\<close> is the \<^verbatim>\<open>input\<close> and
  \<^verbatim>\<open>frames\<close> of one call. The result lists, per call, the returned frame count and
  the output block. \<open>processes\<close> is the same for \<open>process\<close> on the inner processor,
  each call into an empty vector as \<open>processBlock\<close> makes it.
\<close>

fun processBlocks ::
  "'e RubberBandStretcher \<Rightarrow> (sample list \<times> size_t) list \<Rightarrow> 'e LatencyCompensatedProcessor
     \<Rightarrow> ((size_t \<times> sample list) list \<times> 'e LatencyCompensatedProcessor) option" where
  "processBlocks L [] s = Some ([], s)"
| "processBlocks L ((input, frames) # calls) s =
     (case processBlock L input frames [] s of
        None \<Rightarrow> None
      | Some (produced, output, s1) \<Rightarrow>
          (case processBlocks L calls s1 of
             None \<Rightarrow> None
           | Some (blocks, s2) \<Rightarrow> Some ((produced, output) # blocks, s2)))"

fun processes ::
  "'e RubberBandStretcher \<Rightarrow> (sample list \<times> size_t) list \<Rightarrow> 'e TimeStretchPitchProcessor
     \<Rightarrow> ((size_t \<times> sample list) list \<times> 'e TimeStretchPitchProcessor) option" where
  "processes L [] p = Some ([], p)"
| "processes L ((input, frames) # calls) p =
     (case process L input frames [] p of
        None \<Rightarrow> None
      | Some (produced, processed, p1) \<Rightarrow>
          (case processes L calls p1 of
             None \<Rightarrow> None
           | Some (blocks, p2) \<Rightarrow> Some ((produced, processed) # blocks, p2)))"

subsection \<open>Builds, invariants and a stand-in for the library\<close>

definition is_passthrough :: "'e TimeStretchPitchProcessor \<Rightarrow> bool" where
  "is_passthrough p = (case tsp_engine p of Simulated _ \<Rightarrow> True | Adapter _ \<Rightarrow> False)"

text \<open>
  The three copies of the channel count agree: the constructors establish it and no
  method assigns to any of them.
\<close>

definition channels_agree :: "'e LatencyCompensatedProcessor \<Rightarrow> bool" where
  "channels_agree s =
     (tsp_channelCount (lcp_processor s) = lcp_channelCount s \<and>
      (case tsp_engine (lcp_processor s) of
         Adapter (Some a) \<Rightarrow> rba_channelCount a = lcp_channelCount s
       | _ \<Rightarrow> True))"

text \<open>
  A stretcher to run the model on: it has a constant latency and hands back the
  interleaved samples it was given, unchanged. Its state is the channel count and
  the samples not yet retrieved.
\<close>

definition echo_stretcher :: "size_t \<Rightarrow> (int \<times> sample list) RubberBandStretcher" where
  "echo_stretcher latency =
     \<lparr>make_stretcher = (\<lambda>sampleRate channels options. (channels, [])),
      setPitchScale = (\<lambda>scale e. e),
      setTimeRatio = (\<lambda>ratio e. e),
      stretcher_process =
        (\<lambda>input channels frames final (c, held). (c, held @ take (unat frames * nat c) input)),
      available = (\<lambda>(c, held). int (length held) div c),
      retrieve =
        (\<lambda>storage channels n (c, held).
           (take (unat n * nat c) held, (c, drop (unat n * nat c) held))),
      getLatency = (\<lambda>e. latency),
      stretcher_reset = (\<lambda>(c, held). (c, []))\<rparr>"

subsection \<open>Example objects\<close>

text \<open>
  Concrete controls and a concrete processor (48 kHz, stereo, after one control
  update) on the stand-in stretcher, for running the model.
\<close>

definition example_controls :: "int \<Rightarrow> Controls" where
  "example_controls manual =
     \<lparr>controls_tempoRatio = 1.25, controls_pitchSemitones = -2,
      manualLatencySamples = manual\<rparr>"

definition example_processor ::
  "bool \<Rightarrow> size_t \<Rightarrow> int \<Rightarrow> (int \<times> sample list) LatencyCompensatedProcessor" where
  "example_processor have_rubberband latency manual =
     updateControls (echo_stretcher latency) (example_controls manual)
       (new_LatencyCompensatedProcessor (echo_stretcher latency) have_rubberband 48000 2)"


section \<open>Facts about the model\<close>

subsection \<open>Control updates\<close>

lemma totalLatencySamples_pending [simp]:
  "totalLatencySamples L (s\<lparr>lcp_pendingLatencySamples := n\<rparr>) = totalLatencySamples L s"
  by (simp add: totalLatencySamples_def)

lemma refreshPendingLatency_pending:
  "lcp_pendingLatencySamples (refreshPendingLatency L s) = totalLatencySamples L s"
  by (simp add: refreshPendingLatency_def)

lemma refreshPendingLatency_fields [simp]:
  "lcp_processor (refreshPendingLatency L s) = lcp_processor s"
  "lcp_controls (refreshPendingLatency L s) = lcp_controls s"
  "lcp_channelCount (refreshPendingLatency L s) = lcp_channelCount s"
  by (simp_all add: refreshPendingLatency_def)

lemma totalLatencySamples_refresh [simp]:
  "totalLatencySamples L (refreshPendingLatency L s) = totalLatencySamples L s"
  by (simp add: refreshPendingLatency_def)

lemma updateControls_fields:
  "lcp_controls (updateControls L c s) = c"
  "lcp_channelCount (updateControls L c s) = lcp_channelCount s"
  "lcp_processor (updateControls L c s) =
     setParameters L \<lparr>tempoRatio = controls_tempoRatio c,
                      pitchSemitones = controls_pitchSemitones c,
                      quality = StretchQuality_default\<rparr> (lcp_processor s)"
  by (simp_all add: updateControls_def Let_def)

lemma updateControls_pending:
  "lcp_pendingLatencySamples (updateControls L c s) = totalLatencySamples L (updateControls L c s)"
  by (simp add: updateControls_def Let_def refreshPendingLatency_pending)

lemma setParameters_parameters:
  "tsp_parameters (setParameters L P p) = P"
  by (simp add: setParameters_def Let_def split: engine.splits option.splits)

lemma setParameters_fields:
  "tsp_sampleRate (setParameters L P p) = tsp_sampleRate p"
  "tsp_channelCount (setParameters L P p) = tsp_channelCount p"
  by (simp_all add: setParameters_def Let_def split: engine.splits option.splits)

lemma setParameters_passthrough:
  "is_passthrough p \<Longrightarrow>
     tsp_engine (setParameters L P p) = Simulated (size_t_of_double (tsp_sampleRate p * 0.01))"
  by (simp add: setParameters_def is_passthrough_def Let_def split: engine.splits option.splits)

lemma getLatencySamples_passthrough:
  "is_passthrough p \<Longrightarrow>
     getLatencySamples L (setParameters L P p) = size_t_of_double (tsp_sampleRate p * 0.01)"
  by (simp add: getLatencySamples_def setParameters_passthrough)

lemma is_passthrough_setParameters:
  "is_passthrough (setParameters L P p) = is_passthrough p"
  by (cases "tsp_engine p")
     (auto simp: setParameters_def is_passthrough_def Let_def split: option.splits)

subsection \<open>Vectors and \<^verbatim>\<open>size_t\<close> arithmetic\<close>

lemma resize_Nil: "resize [] n = replicate (unat n) 0"
  by (simp add: resize_def)

lemma resize_grow:
  "length v + unat n < 2 ^ 64 \<Longrightarrow> resize v (size_of v + n) = v @ replicate (unat n) 0"
proof -
  assume a: "length v + unat n < 2 ^ 64"
  then have "length v < 2 ^ 64" by simp
  then have l: "unat (size_of v) = length v"
    by (simp add: size_of_def unat_of_nat)
  have "unat (size_of v + n) = unat (size_of v) + unat n"
    using a l by (simp add: unat_add_lem [THEN iffD1])
  then show ?thesis
    using l by (simp add: resize_def)
qed

lemma length_resize: "length (resize v n) = unat n"
  by (simp add: resize_def)

lemma length_overwrite: "length (overwrite w v) = length v"
  by (simp add: overwrite_def)

lemma unat_pending_split:
  fixes pending k :: size_t
  assumes "k \<le> pending"
  shows "unat k + unat (pending - k) = unat pending"
  using assms by (simp add: unat_sub word_le_nat_alt)

lemma unat_size_t_of_int:
  "0 \<le> c \<Longrightarrow> c < 2 ^ 64 \<Longrightarrow> unat (size_t_of_int c) = nat c"
proof -
  assume a: "0 \<le> c" "c < 2 ^ 64"
  then have "nat c < 2 ^ 64" by (simp add: nat_less_iff)
  moreover have "size_t_of_int c = of_nat (nat c)"
    using a by (simp add: size_t_of_int_def)
  ultimately show ?thesis by (simp add: unat_of_nat)
qed

subsection \<open>One \<open>processBlock\<close> call\<close>

text \<open>The two conditional \<^verbatim>\<open>resize\<close> calls of \<open>processBlock\<close>, written out.\<close>

lemma processBlock_unfold:
  "processBlock L input frames out0 s =
     (case process L input frames [] (lcp_processor s) of
        None \<Rightarrow> None
      | Some (produced, processed, p1) \<Rightarrow>
          (let pending = lcp_pendingLatencySamples s;
               k = min pending (produced * size_t_of_int (lcp_channelCount s));
               output3 = replicate (unat k) 0 @ processed
           in Some (produced,
                    (if 0 < pending - k then resize output3 (size_of output3 + (pending - k))
                     else output3),
                    s\<lparr>lcp_processor := p1, lcp_pendingLatencySamples := 0\<rparr>)))"
  apply (simp add: processBlock_def Let_def resize_Nil split: option.splits prod.splits)
  apply (auto simp: word_greater_zero_iff)
  done

lemma processBlock_exact:
  assumes pr: "process L input frames [] (lcp_processor s) = Some (produced, processed, p1)"
    and fit: "length processed + unat (lcp_pendingLatencySamples s) < 2 ^ 64"
  shows "processBlock L input frames out0 s =
           Some (produced,
                 replicate (unat (min (lcp_pendingLatencySamples s)
                                      (produced * size_t_of_int (lcp_channelCount s)))) 0
                 @ processed
                 @ replicate (unat (lcp_pendingLatencySamples s
                                     - min (lcp_pendingLatencySamples s)
                                         (produced * size_t_of_int (lcp_channelCount s)))) 0,
                 s\<lparr>lcp_processor := p1, lcp_pendingLatencySamples := 0\<rparr>)"
proof -
  let ?pending = "lcp_pendingLatencySamples s"
  let ?k = "min ?pending (produced * size_t_of_int (lcp_channelCount s))"
  let ?output3 = "replicate (unat ?k) 0 @ processed"
  have "?k \<le> ?pending" by simp
  then have split: "unat ?k + unat (?pending - ?k) = unat ?pending"
    by (rule unat_pending_split)
  then have "length ?output3 + unat (?pending - ?k) < 2 ^ 64"
    using fit by simp
  then have grow: "resize ?output3 (size_of ?output3 + (?pending - ?k))
                     = ?output3 @ replicate (unat (?pending - ?k)) 0"
    by (rule resize_grow)
  have none: "\<not> 0 < ?pending - ?k \<Longrightarrow> replicate (unat (?pending - ?k)) (0::sample) = []"
    by (simp add: word_greater_zero_iff)
  show ?thesis
    unfolding processBlock_unfold pr
    using grow none by (simp add: Let_def)
qed

lemma processBlock_pending:
  "processBlock L input frames out0 s = Some (produced, out, s') \<Longrightarrow>
     lcp_pendingLatencySamples s' = 0"
  by (auto simp: processBlock_unfold Let_def split: option.splits)

lemma processBlock_process:
  "processBlock L input frames out0 s = Some (produced, out, s') \<Longrightarrow>
     \<exists>processed. process L input frames [] (lcp_processor s)
                   = Some (produced, processed, lcp_processor s')"
  by (auto simp: processBlock_unfold Let_def split: option.splits)

lemma processBlock_frame:
  "processBlock L input frames out0 s = Some (produced, out, s') \<Longrightarrow>
     lcp_channelCount s' = lcp_channelCount s \<and> lcp_controls s' = lcp_controls s"
  by (auto simp: processBlock_unfold Let_def split: option.splits)

lemma processBlock_drained:
  assumes "lcp_pendingLatencySamples s = 0"
    and "processBlock L input frames out0 s = Some (produced, out, s')"
  shows "process L input frames [] (lcp_processor s) = Some (produced, out, lcp_processor s')
         \<and> lcp_pendingLatencySamples s' = 0"
  using assms by (auto simp: processBlock_unfold Let_def split: option.splits)

subsection \<open>The inner processor\<close>

lemma adapter_setParameters_channelCount [simp]:
  "rba_channelCount (adapter_setParameters L P a) = rba_channelCount a"
  by (simp add: adapter_setParameters_def Let_def)

lemma adapter_process_length:
  "adapter_process L input frames [] a = (n, out, a') \<Longrightarrow>
     length out = unat (n * size_t_of_int (rba_channelCount a))
     \<and> rba_channelCount a' = rba_channelCount a"
  by (auto simp: adapter_process_def Let_def length_overwrite length_resize split: prod.splits)

lemma process_length:
  assumes "process L input frames [] p = Some (produced, processed, p1)"
    and "case tsp_engine p of Adapter (Some a) \<Rightarrow> rba_channelCount a = tsp_channelCount p
         | _ \<Rightarrow> True"
  shows "length processed = unat (produced * size_t_of_int (tsp_channelCount p))"
proof (cases "tsp_engine p")
  case (Simulated n)
  with assms(1) show ?thesis
    by (auto simp: process_def Let_def split: if_splits)
next
  case (Adapter x)
  show ?thesis
  proof (cases x)
    case None
    with Adapter assms(1) show ?thesis
      by (auto simp: process_def Let_def configureProcessor_def new_RubberBandAdapter_def
          split: prod.splits dest!: adapter_process_length)
  next
    case (Some a)
    with Adapter assms show ?thesis
      by (auto simp: process_def Let_def split: prod.splits dest!: adapter_process_length)
  qed
qed

lemma process_frame:
  assumes "process L input frames out0 p = Some (produced, processed, p1)"
  shows "tsp_channelCount p1 = tsp_channelCount p \<and> tsp_sampleRate p1 = tsp_sampleRate p
         \<and> tsp_parameters p1 = tsp_parameters p \<and> is_passthrough p1 = is_passthrough p"
  using assms
  by (cases "tsp_engine p")
     (auto simp: process_def Let_def configureProcessor_def is_passthrough_def
        split: if_splits prod.splits option.splits engine.splits)

lemma process_agree:
  assumes "process L input frames out0 p = Some (produced, processed, p1)"
    and "case tsp_engine p of Adapter (Some a) \<Rightarrow> rba_channelCount a = tsp_channelCount p
         | _ \<Rightarrow> True"
  shows "case tsp_engine p1 of Adapter (Some a) \<Rightarrow> rba_channelCount a = tsp_channelCount p1
         | _ \<Rightarrow> True"
  using assms
  by (cases "tsp_engine p")
     (auto simp: process_def Let_def configureProcessor_def new_RubberBandAdapter_def
        adapter_process_def
        split: if_splits prod.splits option.splits engine.splits)

lemma process_passthrough:
  "is_passthrough p \<Longrightarrow>
     process L input frames out0 p =
       (if unat (frames * size_t_of_int (tsp_channelCount p)) \<le> length input
        then Some (frames, take (unat (frames * size_t_of_int (tsp_channelCount p))) input, p)
        else None)"
  by (auto simp: process_def is_passthrough_def Let_def split: engine.splits)

subsection \<open>Zero frames, and calls after the latency is drained\<close>

lemma processBlock_zero_frames:
  assumes "is_passthrough (lcp_processor s)"
  shows "processBlock L input 0 out0 s =
           Some (0, replicate (unat (lcp_pendingLatencySamples s)) 0,
                 s\<lparr>lcp_pendingLatencySamples := 0\<rparr>)"
proof -
  have pr: "process L input 0 [] (lcp_processor s) = Some (0, [], lcp_processor s)"
    using assms by (simp add: process_passthrough)
  have "length ([]::sample list) + unat (lcp_pendingLatencySamples s) < 2 ^ 64"
    using unsigned_less [of "lcp_pendingLatencySamples s", where 'a = nat] by simp
  from processBlock_exact [OF pr this] show ?thesis by simp
qed

lemma processBlocks_drained:
  "lcp_pendingLatencySamples s = 0 \<Longrightarrow> processBlocks L calls s = Some (blocks, s') \<Longrightarrow>
     processes L calls (lcp_processor s) = Some (blocks, lcp_processor s')
     \<and> lcp_pendingLatencySamples s' = 0"
proof (induction calls arbitrary: s blocks)
  case Nil
  then show ?case by simp
next
  case (Cons call calls)
  obtain input frames where call: "call = (input, frames)" by (cases call)
  from Cons.prems(2) call obtain produced out s1 rest where
    first: "processBlock L input frames [] s = Some (produced, out, s1)"
    and rest: "processBlocks L calls s1 = Some (rest, s')"
    and blocks: "blocks = (produced, out) # rest"
    by (auto split: option.splits)
  from processBlock_drained [OF Cons.prems(1) first]
  have pr: "process L input frames [] (lcp_processor s) = Some (produced, out, lcp_processor s1)"
    and z: "lcp_pendingLatencySamples s1 = 0"
    by simp_all
  from Cons.IH [OF z rest]
  have "processes L calls (lcp_processor s1) = Some (rest, lcp_processor s')"
    and "lcp_pendingLatencySamples s' = 0"
    by simp_all
  with pr call blocks show ?case by simp
qed

subsection \<open>When a call returns\<close>

text \<open>
  With Rubber Band every call returns (the library operations are total here). A
  passthrough call returns when the input buffer holds the \<^verbatim>\<open>samples\<close> it reads.
\<close>

lemma process_adapter_returns:
  "\<not> is_passthrough p \<Longrightarrow> \<exists>produced processed p1. process L input frames out0 p = Some (produced, processed, p1)"
  by (cases "tsp_engine p")
     (auto simp: process_def is_passthrough_def Let_def configureProcessor_def
        split: option.splits prod.splits)

lemma processBlock_returns:
  assumes "is_passthrough (lcp_processor s) \<longrightarrow>
             unat (frames * size_t_of_int (tsp_channelCount (lcp_processor s))) \<le> length input"
  shows "\<exists>produced out s'. processBlock L input frames out0 s = Some (produced, out, s')"
proof (cases "is_passthrough (lcp_processor s)")
  case True
  with assms show ?thesis
    by (simp add: processBlock_unfold process_passthrough Let_def)
next
  case False
  from process_adapter_returns [OF this] obtain produced processed p1 where
    "process L input frames [] (lcp_processor s) = Some (produced, processed, p1)"
    by blast
  then show ?thesis
    by (simp add: processBlock_unfold Let_def)
qed

subsection \<open>The channel counts stay in agreement\<close>

lemma channels_agree_new:
  "channels_agree (new_LatencyCompensatedProcessor L b sampleRate channelCount)"
  by (simp add: channels_agree_def new_LatencyCompensatedProcessor_def
      new_TimeStretchPitchProcessor_def configureProcessor_def new_RubberBandAdapter_def)

lemma channels_agree_updateControls:
  "channels_agree s \<Longrightarrow> channels_agree (updateControls L c s)"
  by (cases "tsp_engine (lcp_processor s)")
     (auto simp: channels_agree_def updateControls_fields setParameters_def Let_def
        split: option.splits)

lemma channels_agree_processBlock:
  assumes "channels_agree s" and "processBlock L input frames out0 s = Some (produced, out, s')"
  shows "channels_agree s'"
proof -
  from assms(2) obtain processed where
    pr: "process L input frames [] (lcp_processor s) = Some (produced, processed, lcp_processor s')"
    by (blast dest: processBlock_process)
  have c: "lcp_channelCount s' = lcp_channelCount s"
    using assms(2) by (simp add: processBlock_frame)
  have "tsp_channelCount (lcp_processor s') = tsp_channelCount (lcp_processor s)"
    using pr by (simp add: process_frame)
  moreover have "case tsp_engine (lcp_processor s') of
                   Adapter (Some a) \<Rightarrow> rba_channelCount a = tsp_channelCount (lcp_processor s')
                 | _ \<Rightarrow> True"
    using pr assms(1)
    by (intro process_agree [OF pr]) (auto simp: channels_agree_def split: engine.splits option.splits)
  ultimately show ?thesis
    using assms(1) c by (auto simp: channels_agree_def split: engine.splits option.splits)
qed

subsection \<open>Running the model on the examples\<close>

lemmas eval_defs =
  example_processor_def example_controls_def echo_stretcher_def
  new_LatencyCompensatedProcessor_def new_TimeStretchPitchProcessor_def
  configureProcessor_def new_RubberBandAdapter_def adapter_setParameters_def
  adapter_options_def adapter_process_def adapter_latency_def
  updateControls_def setParameters_def refreshPendingLatency_def totalLatencySamples_def
  getLatencySamples_def process_def processBlock_def
  size_t_of_int_def size_t_of_double_def size_of_def resize_def overwrite_def
  Parameters_default_def StretchQuality_default_def Controls_default_def
  is_passthrough_def channels_agree_def Let_def

lemma example_pending: "lcp_pendingLatencySamples (example_processor False 0 5) = 485"
  by (simp add: eval_defs)

lemma example_flush_call:
  "\<exists>s'. processBlock (echo_stretcher 0) [1, 2, 3, 4] 2 [] (example_processor True 0 2000)
          = Some (2, replicate 4 0 @ [1, 2, 3, 4] @ replicate 1996 0, s')"
  by (simp add: eval_defs)

lemma example_passthrough_call:
  "\<exists>s'. processBlock (echo_stretcher 0) [1, 2, 3, 4] 2 [9, 9] (example_processor False 0 5)
          = Some (2, replicate 4 0 @ [1, 2, 3, 4] @ replicate 481 0, s')"
  by (simp add: eval_defs)

lemma example_sequence:
  "\<exists>s'. processBlocks (echo_stretcher 0) [([1, 2, 3, 4], 2), ([5, 6], 1)]
          (example_processor False 0 5)
        = Some ([(2, replicate 4 0 @ [1, 2, 3, 4] @ replicate 481 0), (1, [5, 6])], s')"
  by (simp add: eval_defs)

lemma example_scenario_call:
  "\<exists>s2. processBlock (echo_stretcher 256) (replicate 1024 7) 512 []
          (updateControls (echo_stretcher 256) (example_controls 0)
             (example_processor True 256 40))
        = Some (512, replicate 256 0 @ replicate 1024 7, s2)"
  by (simp add: eval_defs)

section \<open>The claims\<close>

subsection \<open>C1: total latency, and the pending counter after a control update\<close>

text \<open>
  C1. \<open>totalLatencySamples\<close> is the latency the engine reports plus
  \<open>max 0 manualLatencySamples\<close>, the sum taken in \<^verbatim>\<open>size_t\<close>; it is the sum of the
  two numbers whenever that fits in 64 bits. Immediately after \<open>updateControls\<close>, and
  immediately after construction, the pending counter is exactly this value, for
  the new controls and the latency the engine reports after the update. The update
  is an absolute reset: its result does not depend on the value \<open>n\<close> the counter
  had before.
\<close>

theorem totalLatencySamples_pending_reset:
  "totalLatencySamples L s =
     getLatencySamples L (lcp_processor s)
       + size_t_of_int (max 0 (manualLatencySamples (lcp_controls s)))
   \<and> (unat (getLatencySamples L (lcp_processor s))
         + nat (max 0 (manualLatencySamples (lcp_controls s))) < 2 ^ 64 \<longrightarrow>
       unat (totalLatencySamples L s)
         = unat (getLatencySamples L (lcp_processor s))
           + nat (max 0 (manualLatencySamples (lcp_controls s))))
   \<and> lcp_pendingLatencySamples (updateControls L c s)
       = totalLatencySamples L (updateControls L c s)
   \<and> lcp_pendingLatencySamples (updateControls L c s)
       = getLatencySamples L (lcp_processor (updateControls L c s))
           + size_t_of_int (max 0 (manualLatencySamples c))
   \<and> updateControls L c (s\<lparr>lcp_pendingLatencySamples := n\<rparr>) = updateControls L c s
   \<and> lcp_pendingLatencySamples (new_LatencyCompensatedProcessor L b sampleRate channelCount)
       = totalLatencySamples L (new_LatencyCompensatedProcessor L b sampleRate channelCount)"
proof -
  let ?lat = "getLatencySamples L (lcp_processor s)"
  let ?m = "max 0 (manualLatencySamples (lcp_controls s))"
  have total: "totalLatencySamples L s = ?lat + size_t_of_int ?m"
    by (simp add: totalLatencySamples_def)
  have fits: "unat ?lat + nat ?m < 2 ^ 64 \<longrightarrow> unat (totalLatencySamples L s) = unat ?lat + nat ?m"
  proof
    assume a: "unat ?lat + nat ?m < 2 ^ 64"
    then have "nat ?m < 2 ^ 64" by simp
    then have "?m < 2 ^ 64" by (simp add: nat_less_iff)
    then have u: "unat (size_t_of_int ?m) = nat ?m"
      by (simp add: unat_size_t_of_int)
    then have "unat (?lat + size_t_of_int ?m) = unat ?lat + unat (size_t_of_int ?m)"
      using a by (simp add: unat_add_lem [THEN iffD1])
    then show "unat (totalLatencySamples L s) = unat ?lat + nat ?m"
      using total u by simp
  qed
  have upd: "totalLatencySamples L (updateControls L c s)
               = getLatencySamples L (lcp_processor (updateControls L c s))
                   + size_t_of_int (max 0 (manualLatencySamples c))"
    by (simp add: totalLatencySamples_def updateControls_fields)
  have reset: "updateControls L c (s\<lparr>lcp_pendingLatencySamples := n\<rparr>) = updateControls L c s"
    by (simp add: updateControls_def refreshPendingLatency_def totalLatencySamples_def Let_def)
  have new: "lcp_pendingLatencySamples
               (new_LatencyCompensatedProcessor L b sampleRate channelCount)
             = totalLatencySamples L
                 (new_LatencyCompensatedProcessor L b sampleRate channelCount)"
    by (simp add: new_LatencyCompensatedProcessor_def refreshPendingLatency_pending)
  show ?thesis
    using total fits upd reset new by (simp add: updateControls_pending)
qed

theorem totalLatencySamples_pending_reset_witness:
  "unat (getLatencySamples (echo_stretcher 0) (lcp_processor (example_processor False 0 5)))
     + nat (max 0 (manualLatencySamples (lcp_controls (example_processor False 0 5)))) < 2 ^ 64
   \<and> unat (totalLatencySamples (echo_stretcher 0) (example_processor False 0 5)) = 480 + 5
   \<and> lcp_pendingLatencySamples
        (updateControls (echo_stretcher 0) (example_controls (- 7))
           (example_processor False 0 5)) = 480"
proof -
  let ?L = "echo_stretcher 0" and ?s = "example_processor False 0 5"
  have lat: "getLatencySamples ?L (lcp_processor ?s) = 480"
    and manual: "manualLatencySamples (lcp_controls ?s) = 5"
    by (simp_all add: eval_defs)
  have fit: "unat (getLatencySamples ?L (lcp_processor ?s))
               + nat (max 0 (manualLatencySamples (lcp_controls ?s))) < 2 ^ 64"
    by (simp add: lat manual)
  have lat': "getLatencySamples ?L (lcp_processor (updateControls ?L (example_controls (- 7)) ?s))
                + size_t_of_int (max 0 (manualLatencySamples (example_controls (- 7)))) = 480"
    by (simp add: eval_defs)
  from totalLatencySamples_pending_reset [of ?L ?s "example_controls (- 7)" 0 False 0 0]
  have total: "unat (getLatencySamples ?L (lcp_processor ?s))
                 + nat (max 0 (manualLatencySamples (lcp_controls ?s))) < 2 ^ 64 \<longrightarrow>
               unat (totalLatencySamples ?L ?s)
                 = unat (getLatencySamples ?L (lcp_processor ?s))
                   + nat (max 0 (manualLatencySamples (lcp_controls ?s)))"
    and pending: "lcp_pendingLatencySamples (updateControls ?L (example_controls (- 7)) ?s)
                    = getLatencySamples ?L
                        (lcp_processor (updateControls ?L (example_controls (- 7)) ?s))
                      + size_t_of_int (max 0 (manualLatencySamples (example_controls (- 7))))"
    by blast+
  from total fit have "unat (totalLatencySamples ?L ?s) = 480 + 5"
    by (simp add: lat manual)
  moreover from pending lat'
  have "lcp_pendingLatencySamples (updateControls ?L (example_controls (- 7)) ?s) = 480"
    by simp
  ultimately show ?thesis
    using fit by blast
qed

subsection \<open>C2: the leftover latency is flushed within the same call\<close>

text \<open>
  C2. Whenever a \<open>processBlock\<close> call returns, the pending counter is 0 afterwards.
  The output block is the capped prefix of zeros, of
  \<open>min pending (produced * channelCount)\<close> samples, then everything the inner
  processor produced in this call, then the rest of the pending count as trailing
  zeros. (The shape is stated for blocks whose length fits in \<^verbatim>\<open>size_t\<close>; the
  argument of the last \<^verbatim>\<open>resize\<close> is computed in \<^verbatim>\<open>size_t\<close>.)
\<close>

theorem processBlock_flushes_pending:
  assumes call: "processBlock L input frames output s = Some (produced, out, s')"
  shows "lcp_pendingLatencySamples s' = 0
         \<and> (\<exists>processed.
               process L input frames [] (lcp_processor s)
                 = Some (produced, processed, lcp_processor s')
               \<and> (length processed + unat (lcp_pendingLatencySamples s) < 2 ^ 64 \<longrightarrow>
                    out = replicate
                            (unat (min (lcp_pendingLatencySamples s)
                                       (produced * size_t_of_int (lcp_channelCount s)))) 0
                          @ processed
                          @ replicate
                              (unat (lcp_pendingLatencySamples s
                                      - min (lcp_pendingLatencySamples s)
                                          (produced * size_t_of_int (lcp_channelCount s)))) 0))"
proof -
  from call obtain processed where
    pr: "process L input frames [] (lcp_processor s) = Some (produced, processed, lcp_processor s')"
    by (blast dest: processBlock_process)
  have "length processed + unat (lcp_pendingLatencySamples s) < 2 ^ 64 \<longrightarrow>
          out = replicate
                  (unat (min (lcp_pendingLatencySamples s)
                             (produced * size_t_of_int (lcp_channelCount s)))) 0
                @ processed
                @ replicate
                    (unat (lcp_pendingLatencySamples s
                            - min (lcp_pendingLatencySamples s)
                                (produced * size_t_of_int (lcp_channelCount s)))) 0"
    using processBlock_exact [OF pr] call by auto
  with pr processBlock_pending [OF call] show ?thesis by blast
qed

text \<open>
  The scenario of the specification: engine latency 0, manual latency 2000, stereo,
  one call with two frames. All 2000 zeros are in this block: 4 before the four
  produced samples, 1996 after them.
\<close>

theorem processBlock_flushes_pending_witness:
  "lcp_pendingLatencySamples (example_processor True 0 2000) = 2000
   \<and> (\<exists>s'. processBlock (echo_stretcher 0) [1, 2, 3, 4] 2 [] (example_processor True 0 2000)
             = Some (2, replicate 4 0 @ [1, 2, 3, 4] @ replicate 1996 0, s')
           \<and> process (echo_stretcher 0) [1, 2, 3, 4] 2 []
               (lcp_processor (example_processor True 0 2000))
             = Some (2, [1, 2, 3, 4], lcp_processor s')
           \<and> length [1, 2, 3, 4 :: sample]
               + unat (lcp_pendingLatencySamples (example_processor True 0 2000)) < 2 ^ 64
           \<and> lcp_pendingLatencySamples s' = 0)"
proof -
  let ?L = "echo_stretcher 0" and ?s = "example_processor True 0 2000"
  have pending: "lcp_pendingLatencySamples ?s = 2000"
    by (simp add: eval_defs)
  obtain s' where call:
    "processBlock ?L [1, 2, 3, 4] 2 [] ?s
       = Some (2, replicate 4 0 @ [1, 2, 3, 4] @ replicate 1996 0, s')"
    using example_flush_call by blast
  from processBlock_flushes_pending [OF call] obtain processed where
    z: "lcp_pendingLatencySamples s' = 0"
    and pr: "process ?L [1, 2, 3, 4] 2 [] (lcp_processor ?s)
               = Some (2, processed, lcp_processor s')"
    by blast
  have "\<exists>p1. process ?L [1, 2, 3, 4] 2 [] (lcp_processor ?s) = Some (2, [1, 2, 3, 4], p1)"
    by (simp add: eval_defs)
  with pr have pr': "process ?L [1, 2, 3, 4] 2 [] (lcp_processor ?s)
                       = Some (2, [1, 2, 3, 4], lcp_processor s')"
    by auto
  have fit: "length [1, 2, 3, 4 :: sample] + unat (lcp_pendingLatencySamples ?s) < 2 ^ 64"
    by (simp add: pending)
  from pending call pr' fit z show ?thesis by blast
qed

subsection \<open>C3: the padding of a sequence of calls adds up to the pending value\<close>

text \<open>
  C3. Take a non-empty sequence of \<open>processBlock\<close> calls on one object with no
  control update in between, all of which return. The first block is what the inner
  processor produced in the first call with \<open>a\<close> zeros before and \<open>b\<close> zeros after
  it, where \<open>a + b\<close> is the pending value the sequence started with; every later
  block is exactly what the inner processor produced, with no padding. So the output
  samples of the whole sequence are the produced samples plus that pending value,
  and the counter is 0 at the end. (The first block is described when its length
  fits in \<^verbatim>\<open>size_t\<close>, as in C2.)
\<close>

theorem processBlocks_padding_total:
  assumes run: "processBlocks L calls s = Some (blocks, s')"
    and nonempty: "calls \<noteq> []"
  shows "\<exists>produced processed out rest.
           processes L calls (lcp_processor s)
             = Some ((produced, processed) # rest, lcp_processor s')
           \<and> blocks = (produced, out) # rest
           \<and> lcp_pendingLatencySamples s' = 0
           \<and> (length processed + unat (lcp_pendingLatencySamples s) < 2 ^ 64 \<longrightarrow>
                (\<exists>a b. a + b = unat (lcp_pendingLatencySamples s)
                       \<and> out = replicate a 0 @ processed @ replicate b 0)
                \<and> sum_list (map (length \<circ> snd) blocks)
                    = sum_list (map (length \<circ> snd) ((produced, processed) # rest))
                      + unat (lcp_pendingLatencySamples s))"
proof -
  let ?pending = "lcp_pendingLatencySamples s"
  from nonempty obtain input frames calls' where calls: "calls = (input, frames) # calls'"
    by (cases calls) auto
  from run calls obtain produced out s1 rest where
    first: "processBlock L input frames [] s = Some (produced, out, s1)"
    and rest: "processBlocks L calls' s1 = Some (rest, s')"
    and blocks: "blocks = (produced, out) # rest"
    by (auto split: option.splits)
  from first obtain processed where
    pr: "process L input frames [] (lcp_processor s) = Some (produced, processed, lcp_processor s1)"
    by (blast dest: processBlock_process)
  have z: "lcp_pendingLatencySamples s1 = 0"
    using first by (rule processBlock_pending)
  from processBlocks_drained [OF z rest]
  have eng: "processes L calls' (lcp_processor s1) = Some (rest, lcp_processor s')"
    and z': "lcp_pendingLatencySamples s' = 0"
    by simp_all
  have all: "processes L calls (lcp_processor s)
               = Some ((produced, processed) # rest, lcp_processor s')"
    using calls pr eng by simp
  have shape: "length processed + unat ?pending < 2 ^ 64 \<longrightarrow>
                (\<exists>a b. a + b = unat ?pending
                       \<and> out = replicate a 0 @ processed @ replicate b 0)
                \<and> sum_list (map (length \<circ> snd) blocks)
                    = sum_list (map (length \<circ> snd) ((produced, processed) # rest))
                      + unat ?pending"
  proof
    let ?k = "min ?pending (produced * size_t_of_int (lcp_channelCount s))"
    assume "length processed + unat ?pending < 2 ^ 64"
    from processBlock_exact [OF pr this] first
    have out: "out = replicate (unat ?k) 0 @ processed @ replicate (unat (?pending - ?k)) 0"
      by simp
    have split: "unat ?k + unat (?pending - ?k) = unat ?pending"
      by (rule unat_pending_split) simp
    have "\<exists>a b. a + b = unat ?pending \<and> out = replicate a 0 @ processed @ replicate b 0"
      using out split by blast
    moreover have "sum_list (map (length \<circ> snd) blocks)
                     = sum_list (map (length \<circ> snd) ((produced, processed) # rest))
                       + unat ?pending"
      using out split blocks by simp
    ultimately show "(\<exists>a b. a + b = unat ?pending
                       \<and> out = replicate a 0 @ processed @ replicate b 0)
                \<and> sum_list (map (length \<circ> snd) blocks)
                    = sum_list (map (length \<circ> snd) ((produced, processed) # rest))
                      + unat ?pending"
      by blast
  qed
  show ?thesis
    using all blocks z' shape by blast
qed

theorem processBlocks_padding_total_witness:
  "[([1, 2, 3, 4 :: sample], 2 :: size_t), ([5, 6], 1)] \<noteq> []
   \<and> length [1, 2, 3, 4 :: sample]
        + unat (lcp_pendingLatencySamples (example_processor False 0 5)) < 2 ^ 64
   \<and> (\<exists>s'. processBlocks (echo_stretcher 0) [([1, 2, 3, 4], 2), ([5, 6], 1)]
               (example_processor False 0 5)
             = Some ([(2, replicate 4 0 @ [1, 2, 3, 4] @ replicate 481 0), (1, [5, 6])], s')
           \<and> sum_list (map (length \<circ> snd)
                 [(2 :: size_t, replicate 4 0 @ [1, 2, 3, 4 :: sample] @ replicate 481 0),
                  (1, [5, 6])])
               = (4 + 2) + 485
           \<and> lcp_pendingLatencySamples s' = 0)"
proof -
  let ?s = "example_processor False 0 5"
  let ?calls = "[([1, 2, 3, 4 :: sample], 2 :: size_t), ([5, 6], 1)]"
  let ?blocks = "[(2 :: size_t, replicate 4 0 @ [1, 2, 3, 4 :: sample] @ replicate 481 0),
                  (1, [5, 6])]"
  have ne: "?calls \<noteq> []" by simp
  have fit: "length [1, 2, 3, 4 :: sample] + unat (lcp_pendingLatencySamples ?s) < 2 ^ 64"
    by (simp add: example_pending)
  obtain s' where run: "processBlocks (echo_stretcher 0) ?calls ?s = Some (?blocks, s')"
    using example_sequence by blast
  have eng: "processes (echo_stretcher 0) ?calls (lcp_processor ?s)
               = Some ([(2, [1, 2, 3, 4]), (1, [5, 6])], lcp_processor ?s)"
    by (simp add: eval_defs)
  from processBlocks_padding_total [OF run ne] obtain produced processed rest where
    a: "processes (echo_stretcher 0) ?calls (lcp_processor ?s)
          = Some ((produced, processed) # rest, lcp_processor s')"
    and z: "lcp_pendingLatencySamples s' = 0"
    and b: "length processed + unat (lcp_pendingLatencySamples ?s) < 2 ^ 64 \<longrightarrow>
             sum_list (map (length \<circ> snd) ?blocks)
               = sum_list (map (length \<circ> snd) ((produced, processed) # rest))
                 + unat (lcp_pendingLatencySamples ?s)"
    by blast
  from a eng have "produced = 2" "processed = [1, 2, 3, 4]" "rest = [(1, [5, 6])]"
    by simp_all
  with b fit have "sum_list (map (length \<circ> snd) ?blocks) = (4 + 2) + 485"
    by (simp add: example_pending)
  with ne fit run z show ?thesis by blast
qed

subsection \<open>C4: the scenario with an engine latency of 256 frames\<close>

text \<open>
  C4. Manual latency 0 and an engine that reports a latency of 256 after the control
  update: the update sets the pending counter to 256, whatever state \<open>s0\<close> it is
  applied to and whatever the counter was before. On a stereo object whose channel
  counts agree (the object constructed at sample rate 48000 with two channels is
  one), the next \<open>processBlock\<close> call with 512 frames returns \<open>k\<close> zeros, then all
  samples the inner processor produced in that call, then \<open>256 - k\<close> zeros, where
  \<open>k = min 256 (produced * 2)\<close>: at most 256 leading zeros, which is within the 512 of
  the scenario. (For an engine block of a size that fits in \<^verbatim>\<open>size_t\<close> with the
  256 zeros added.)
\<close>

theorem scenario_engine_latency_256:
  assumes manual: "manualLatencySamples c = 0"
    and engine: "getLatencySamples L (lcp_processor (updateControls L c s0)) = 256"
  shows "lcp_pendingLatencySamples (updateControls L c s0) = 256
         \<and> channels_agree (new_LatencyCompensatedProcessor L b 48000 2)
         \<and> lcp_channelCount (new_LatencyCompensatedProcessor L b 48000 2) = 2
         \<and> (channels_agree s0 \<and> lcp_channelCount s0 = 2
             \<and> processBlock L input 512 output (updateControls L c s0)
                 = Some (produced, out, s2)
             \<and> unat (produced * 2) + 256 < (2::nat) ^ 64 \<longrightarrow>
             (\<exists>processed k.
                process L input 512 [] (lcp_processor (updateControls L c s0))
                  = Some (produced, processed, lcp_processor s2)
                \<and> k = unat (min 256 (produced * 2))
                \<and> k \<le> 256 \<and> k \<le> 512
                \<and> out = replicate k 0 @ processed @ replicate (256 - k) 0))"
proof -
  let ?s1 = "updateControls L c s0"
  have pending: "lcp_pendingLatencySamples ?s1 = 256"
    using manual engine
    by (simp add: updateControls_pending totalLatencySamples_def updateControls_fields(1)
        size_t_of_int_def)
  have fresh: "lcp_channelCount (new_LatencyCompensatedProcessor L b 48000 2) = 2"
    by (simp add: new_LatencyCompensatedProcessor_def)
  have block: "\<exists>processed k.
                process L input 512 [] (lcp_processor ?s1)
                  = Some (produced, processed, lcp_processor s2)
                \<and> k = unat (min 256 (produced * 2))
                \<and> k \<le> 256 \<and> k \<le> 512
                \<and> out = replicate k 0 @ processed @ replicate (256 - k) 0"
    if agree0: "channels_agree s0" and cc0: "lcp_channelCount s0 = 2"
      and call: "processBlock L input 512 output ?s1 = Some (produced, out, s2)"
      and fit: "unat (produced * 2) + 256 < (2::nat) ^ 64"
  proof -
    have "lcp_channelCount ?s1 = 2"
      using cc0 by (simp add: updateControls_fields)
    then have spf: "size_t_of_int (lcp_channelCount ?s1) = 2"
      by (simp add: size_t_of_int_def)
    have agree: "channels_agree ?s1"
      using agree0 by (rule channels_agree_updateControls)
    from call obtain processed where
      pr: "process L input 512 [] (lcp_processor ?s1)
             = Some (produced, processed, lcp_processor s2)"
      by (blast dest: processBlock_process)
    have "length processed
            = unat (produced * size_t_of_int (tsp_channelCount (lcp_processor ?s1)))"
      using agree
      by (intro process_length [OF pr])
         (auto simp: channels_agree_def split: engine.splits option.splits)
    then have len: "length processed = unat (produced * 2)"
      using agree spf by (simp add: channels_agree_def)
    then have "length processed + unat (lcp_pendingLatencySamples ?s1) < 2 ^ 64"
      using fit pending by simp
    from processBlock_exact [OF pr this] call pending spf
    have out: "out = replicate (unat (min 256 (produced * 2))) 0 @ processed
                     @ replicate (unat (256 - min 256 (produced * 2))) 0"
      by simp
    let ?k = "min (256::size_t) (produced * 2)"
    have le: "unat ?k \<le> 256"
      using word_le_nat_alt [of ?k 256] by simp
    have "unat (256 - ?k) = 256 - unat ?k"
      using unat_sub [of ?k 256] by simp
    with out le pr show ?thesis by auto
  qed
  show ?thesis
    using pending fresh block channels_agree_new [of L b 48000 2] by blast
qed

text \<open>
  The update is applied to an object whose counter is 296 (engine latency 256 and a
  previous manual latency of 40), and to the same object after its counter has been
  drained to 0: both times the counter is 256 afterwards.
\<close>

theorem scenario_engine_latency_256_witness:
  "manualLatencySamples (example_controls 0) = 0
   \<and> getLatencySamples (echo_stretcher 256)
        (lcp_processor (updateControls (echo_stretcher 256) (example_controls 0)
           (example_processor True 256 40))) = 256
   \<and> lcp_pendingLatencySamples (example_processor True 256 40) = 296
   \<and> lcp_pendingLatencySamples
        (updateControls (echo_stretcher 256) (example_controls 0)
           (example_processor True 256 40)) = 256
   \<and> lcp_pendingLatencySamples
        (updateControls (echo_stretcher 256) (example_controls 0)
           ((example_processor True 256 40)\<lparr>lcp_pendingLatencySamples := 0\<rparr>)) = 256
   \<and> channels_agree (example_processor True 256 40)
   \<and> lcp_channelCount (example_processor True 256 40) = 2
   \<and> unat ((512::size_t) * 2) + 256 < (2::nat) ^ 64
   \<and> (\<exists>s2. processBlock (echo_stretcher 256) (replicate 1024 7) 512 []
               (updateControls (echo_stretcher 256) (example_controls 0)
                  (example_processor True 256 40))
             = Some (512, replicate 256 0 @ replicate 1024 7, s2)
           \<and> process (echo_stretcher 256) (replicate 1024 7) 512 []
               (lcp_processor (updateControls (echo_stretcher 256) (example_controls 0)
                  (example_processor True 256 40)))
             = Some (512, replicate 1024 7, lcp_processor s2))"
proof -
  let ?L = "echo_stretcher 256"
  let ?c = "example_controls 0"
  let ?s0 = "example_processor True 256 40"
  let ?d0 = "(example_processor True 256 40)\<lparr>lcp_pendingLatencySamples := 0\<rparr>"
  have manual: "manualLatencySamples ?c = 0"
    by (simp add: example_controls_def)
  have engine: "getLatencySamples ?L (lcp_processor (updateControls ?L ?c ?s0)) = 256"
    by (simp add: eval_defs)
  have engine_d: "getLatencySamples ?L (lcp_processor (updateControls ?L ?c ?d0)) = 256"
    by (simp add: eval_defs)
  have before: "lcp_pendingLatencySamples ?s0 = 296"
    by (simp add: eval_defs)
  have agree0: "channels_agree ?s0" and cc0: "lcp_channelCount ?s0 = 2"
    by (simp_all add: eval_defs)
  have fit: "unat ((512::size_t) * 2) + 256 < (2::nat) ^ 64"
    by simp
  obtain s2 where call:
    "processBlock ?L (replicate 1024 7) 512 [] (updateControls ?L ?c ?s0)
       = Some (512, replicate 256 0 @ replicate 1024 7, s2)"
    using example_scenario_call by blast
  from scenario_engine_latency_256 [OF manual engine_d]
  have after_d: "lcp_pendingLatencySamples (updateControls ?L ?c ?d0) = 256"
    by blast
  from scenario_engine_latency_256
         [OF manual engine, of False "replicate 1024 7" "[]" 512
            "replicate 256 0 @ replicate 1024 7" s2]
    agree0 cc0 call fit
  obtain processed k where
    after: "lcp_pendingLatencySamples (updateControls ?L ?c ?s0) = 256"
    and pr: "process ?L (replicate 1024 7) 512 [] (lcp_processor (updateControls ?L ?c ?s0))
               = Some (512, processed, lcp_processor s2)"
    and k: "k = unat (min 256 ((512::size_t) * 2))"
    and out: "replicate 256 0 @ replicate 1024 7
                = replicate k 0 @ processed @ replicate (256 - k) (0::sample)"
    by blast
  from k have "k = 256" by simp
  with out have "processed = replicate 1024 7" by simp
  with pr have pr': "process ?L (replicate 1024 7) 512 []
                       (lcp_processor (updateControls ?L ?c ?s0))
                     = Some (512, replicate 1024 7, lcp_processor s2)"
    by simp
  from manual engine before after after_d agree0 cc0 fit call pr' show ?thesis
    by blast
qed

subsection \<open>C5: construction does not validate its arguments\<close>

text \<open>
  C5 says that a zero or negative channel count, or a zero sample rate, makes
  construction fail. It does not: in the passthrough build, where no code outside
  the repository runs, both constructors yield an object for a channel count of 0
  or -1 and for a sample rate of 0.
\<close>

theorem construction_accepts_invalid_arguments:
  "\<not> is_Failed (construct_LatencyCompensatedProcessor (echo_stretcher 0) False 0 0)
   \<and> \<not> is_Failed (construct_LatencyCompensatedProcessor (echo_stretcher 0) False 48000 (- 1))
   \<and> \<not> is_Failed (construct_LatencyCompensatedProcessor (echo_stretcher 0) False 0 2)
   \<and> \<not> is_Failed
         (construct_TimeStretchPitchProcessor (echo_stretcher 0) False 0 0 Parameters_default)"
  by (simp add: construct_LatencyCompensatedProcessor_def
      construct_TimeStretchPitchProcessor_def)

text \<open>
  C5, amended. In the passthrough build construction never fails: for every sample
  rate and channel count, both constructors yield an object that stores the two
  values as given, unchecked.
\<close>

theorem construction_never_fails:
  "\<not> is_Failed (construct_LatencyCompensatedProcessor L False sampleRate channelCount)
   \<and> lcp_channelCount
        (object (construct_LatencyCompensatedProcessor L False sampleRate channelCount))
       = channelCount
   \<and> tsp_channelCount (lcp_processor
        (object (construct_LatencyCompensatedProcessor L False sampleRate channelCount)))
       = channelCount
   \<and> tsp_sampleRate (lcp_processor
        (object (construct_LatencyCompensatedProcessor L False sampleRate channelCount)))
       = sampleRate
   \<and> \<not> is_Failed (construct_TimeStretchPitchProcessor L False sampleRate channelCount defaults)
   \<and> tsp_channelCount
        (object (construct_TimeStretchPitchProcessor L False sampleRate channelCount defaults))
       = channelCount
   \<and> tsp_sampleRate
        (object (construct_TimeStretchPitchProcessor L False sampleRate channelCount defaults))
       = sampleRate"
  by (simp add: construct_LatencyCompensatedProcessor_def construct_TimeStretchPitchProcessor_def
      new_LatencyCompensatedProcessor_def new_TimeStretchPitchProcessor_def
      configureProcessor_def)

subsection \<open>C6: a repeated control update\<close>

text \<open>
  C6. Two \<open>updateControls\<close> calls in a row with the same controls leave the pending
  counter at the value it had after the first: the engine latency plus
  \<open>max 0 manualLatencySamples\<close>, not twice that. This holds in the passthrough
  build, and with Rubber Band whenever the stretcher reports the same latency after
  its ratios are set again to the same values.
\<close>

theorem updateControls_idempotent:
  assumes "is_passthrough (lcp_processor s) \<or>
           getLatencySamples L (lcp_processor (updateControls L c (updateControls L c s)))
             = getLatencySamples L (lcp_processor (updateControls L c s))"
  shows "lcp_pendingLatencySamples (updateControls L c (updateControls L c s))
           = lcp_pendingLatencySamples (updateControls L c s)
         \<and> lcp_pendingLatencySamples (updateControls L c s)
           = getLatencySamples L (lcp_processor (updateControls L c s))
               + size_t_of_int (max 0 (manualLatencySamples c))"
proof -
  let ?s1 = "updateControls L c s" and ?s2 = "updateControls L c (updateControls L c s)"
  have lat: "getLatencySamples L (lcp_processor ?s2) = getLatencySamples L (lcp_processor ?s1)"
    using assms
    by (auto simp: updateControls_fields getLatencySamples_passthrough
        is_passthrough_setParameters setParameters_fields)
  have p: "\<And>t. lcp_pendingLatencySamples (updateControls L c t)
             = getLatencySamples L (lcp_processor (updateControls L c t))
                 + size_t_of_int (max 0 (manualLatencySamples c))"
    by (simp add: updateControls_pending totalLatencySamples_def updateControls_fields(1))
  show ?thesis
    using lat p [of s] p [of ?s1] by simp
qed

theorem updateControls_idempotent_witness:
  "is_passthrough (lcp_processor (example_processor False 0 5))
   \<and> lcp_pendingLatencySamples
        (updateControls (echo_stretcher 0) (example_controls 100)
          (updateControls (echo_stretcher 0) (example_controls 100)
            (example_processor False 0 5))) = 580
   \<and> lcp_pendingLatencySamples
        (updateControls (echo_stretcher 0) (example_controls 100)
          (example_processor False 0 5)) = 580"
proof -
  have h: "is_passthrough (lcp_processor (example_processor False 0 5))"
    by (simp add: eval_defs)
  have v: "getLatencySamples (echo_stretcher 0)
             (lcp_processor (updateControls (echo_stretcher 0) (example_controls 100)
                (example_processor False 0 5)))
           + size_t_of_int (max 0 (manualLatencySamples (example_controls 100))) = 580"
    by (simp add: eval_defs)
  from updateControls_idempotent
         [of "example_processor False 0 5" "echo_stretcher 0" "example_controls 100"] h v
  show ?thesis by simp
qed

subsection \<open>C7: the passthrough build copies its input\<close>

text \<open>
  C7. In the passthrough build, for a non-negative channel count and an input buffer
  that holds at least \<open>frames * channelCount\<close> samples, \<open>process\<close> returns \<open>frames\<close>
  and sets the output to the first \<open>frames * channelCount\<close> samples of the input,
  unchanged, whatever the output held before; for a buffer of exactly that many
  samples the output is the input. (A buffer in memory has fewer than \<open>2 ^ 64\<close>
  samples.)
\<close>

theorem passthrough_process_identity:
  assumes pt: "is_passthrough p"
    and cc: "0 \<le> tsp_channelCount p"
    and buf: "unat frames * nat (tsp_channelCount p) \<le> length input"
    and mem: "length input < 2 ^ 64"
  shows "process L input frames output p
           = Some (frames, take (unat frames * nat (tsp_channelCount p)) input, p)
         \<and> (length input = unat frames * nat (tsp_channelCount p) \<longrightarrow>
              process L input frames output p = Some (frames, input, p))"
proof -
  let ?c = "tsp_channelCount p"
  have samples: "unat (frames * size_t_of_int ?c) = unat frames * nat ?c"
  proof (cases "frames = 0")
    case True
    then show ?thesis by simp
  next
    case False
    then have "0 < unat frames" by (simp add: unat_gt_0)
    then have "nat ?c \<le> unat frames * nat ?c" by simp
    with buf mem have "nat ?c < 2 ^ 64" by linarith
    then have "?c < 2 ^ 64" using cc by (simp add: nat_less_iff)
    then have u: "unat (size_t_of_int ?c) = nat ?c"
      using cc by (simp add: unat_size_t_of_int)
    have "unat frames * unat (size_t_of_int ?c) < 2 ^ 64"
      using u buf mem by simp
    then show ?thesis
      using u by (simp add: unat_mult_lem [THEN iffD1])
  qed
  then have "process L input frames output p
               = Some (frames, take (unat frames * nat ?c) input, p)"
    using pt buf by (simp add: process_passthrough)
  then show ?thesis by auto
qed

theorem passthrough_process_identity_witness:
  "is_passthrough (lcp_processor (example_processor False 0 5))
   \<and> 0 \<le> tsp_channelCount (lcp_processor (example_processor False 0 5))
   \<and> unat (2::size_t) * nat (tsp_channelCount (lcp_processor (example_processor False 0 5)))
       \<le> length [1, 2, 3, 4 :: sample]
   \<and> length [1, 2, 3, 4 :: sample] < 2 ^ 64
   \<and> process (echo_stretcher 0) [1, 2, 3, 4] 2 [9, 9] (lcp_processor (example_processor False 0 5))
       = Some (2, [1, 2, 3, 4], lcp_processor (example_processor False 0 5))"
proof -
  let ?p = "lcp_processor (example_processor False 0 5)"
  have pt: "is_passthrough ?p" and cc: "tsp_channelCount ?p = 2"
    by (simp_all add: eval_defs)
  have nonneg: "0 \<le> tsp_channelCount ?p"
    and buf: "unat (2::size_t) * nat (tsp_channelCount ?p) \<le> length [1, 2, 3, 4 :: sample]"
    and exact: "length [1, 2, 3, 4 :: sample] = unat (2::size_t) * nat (tsp_channelCount ?p)"
    by (simp_all add: cc)
  have mem: "length [1, 2, 3, 4 :: sample] < 2 ^ 64"
    by simp
  from passthrough_process_identity [OF pt nonneg buf mem, of "echo_stretcher 0" "[9, 9]"] exact
  have "process (echo_stretcher 0) [1, 2, 3, 4] 2 [9, 9] ?p = Some (2, [1, 2, 3, 4], ?p)"
    by blast
  with pt nonneg buf mem show ?thesis by blast
qed

subsection \<open>C8: endpoint descriptors\<close>

text \<open>
  C8. In every state \<open>describeEndpoints\<close> returns four descriptors whose default
  values are the stored tempo ratio, pitch, formant preservation and transient
  sensitivity, and \<open>controlEndpoints\<close> returns three whose default values are the
  stored tempo ratio, pitch and manual latency.
\<close>

theorem endpoints_report_current_values:
  "length (describeEndpoints p) = 4
   \<and> map ident (describeEndpoints p) = [''tempo'', ''pitch'', ''formant'', ''transient'']
   \<and> map defaultValue (describeEndpoints p) =
       [tempoRatio (getParameters p), pitchSemitones (getParameters p),
        formantPreservation (quality (getParameters p)),
        transientSensitivity (quality (getParameters p))]
   \<and> length (controlEndpoints s) = 3
   \<and> map control_id (controlEndpoints s) = [''tempo'', ''pitch'', ''manualLatency'']
   \<and> map control_defaultValue (controlEndpoints s) =
       [controls_tempoRatio (currentControls s), controls_pitchSemitones (currentControls s),
        of_int (manualLatencySamples (currentControls s))]"
  by (simp add: describeEndpoints_def controlEndpoints_def getParameters_def currentControls_def)

text \<open>After a control update with tempo 1.25, pitch -2 and manual latency 5, the
  defaults are those values, not the constants of a fresh object.\<close>

theorem endpoints_report_current_values_witness:
  "map control_defaultValue (controlEndpoints (example_processor False 0 5)) = [1.25, - 2, 5]
   \<and> map defaultValue (describeEndpoints (lcp_processor (example_processor False 0 5)))
       = [1.25, - 2, 0.5, 0.5]"
proof -
  let ?s = "example_processor False 0 5"
  have "currentControls ?s = example_controls 5"
    by (simp add: currentControls_def example_processor_def updateControls_fields)
  moreover have "getParameters (lcp_processor ?s)
                   = \<lparr>tempoRatio = 1.25, pitchSemitones = - 2, quality = StretchQuality_default\<rparr>"
    by (simp add: getParameters_def example_processor_def updateControls_fields
        setParameters_parameters example_controls_def)
  ultimately show ?thesis
    using endpoints_report_current_values [of "lcp_processor ?s" ?s]
    by (simp add: example_controls_def StretchQuality_default_def)
qed

subsection \<open>C9: the length of the output block\<close>

text \<open>
  C9. For an object whose channel counts agree, a \<open>processBlock\<close> call that returns,
  and a block length that fits in \<^verbatim>\<open>size_t\<close>: the output has
  \<open>pending + produced * channelCount\<close> samples, where \<open>pending\<close> is the counter before
  the call; it does not depend on what the output vector held before; it is the
  produced samples, all of them, with \<open>a\<close> zeros before and \<open>b\<close> zeros after them,
  \<open>a + b = pending\<close>; and the counter is 0 afterwards. A call that produces no frame
  returns exactly \<open>pending\<close> zeros. In the passthrough build \<open>produced\<close> is \<open>frames\<close>,
  and a zero-frame call returns 0 and an output of exactly \<open>pending\<close> zeros.
\<close>

theorem processBlock_output_length:
  assumes agree: "channels_agree s"
    and call: "processBlock L input frames output s = Some (produced, out, s')"
    and fit: "unat (lcp_pendingLatencySamples s)
                + unat produced * unat (size_t_of_int (lcp_channelCount s)) < 2 ^ 64"
  shows "length out = unat (lcp_pendingLatencySamples s)
                        + unat produced * unat (size_t_of_int (lcp_channelCount s))
         \<and> (0 \<le> lcp_channelCount s \<and> lcp_channelCount s < 2 ^ 31 \<longrightarrow>
              length out = unat (lcp_pendingLatencySamples s)
                             + unat produced * nat (lcp_channelCount s))
         \<and> (\<forall>output'. processBlock L input frames output' s = Some (produced, out, s'))
         \<and> (\<exists>processed a b.
               process L input frames [] (lcp_processor s)
                 = Some (produced, processed, lcp_processor s')
               \<and> a + b = unat (lcp_pendingLatencySamples s)
               \<and> out = replicate a 0 @ processed @ replicate b 0)
         \<and> lcp_pendingLatencySamples s' = 0
         \<and> (produced = 0 \<longrightarrow> out = replicate (unat (lcp_pendingLatencySamples s)) 0)
         \<and> (is_passthrough (lcp_processor s) \<longrightarrow>
              produced = frames
              \<and> processBlock L input 0 output s
                  = Some (0, replicate (unat (lcp_pendingLatencySamples s)) 0,
                          s\<lparr>lcp_pendingLatencySamples := 0\<rparr>))"
proof -
  let ?pending = "lcp_pendingLatencySamples s"
  let ?spf = "size_t_of_int (lcp_channelCount s)"
  let ?k = "min ?pending (produced * ?spf)"
  from call obtain processed where
    pr: "process L input frames [] (lcp_processor s) = Some (produced, processed, lcp_processor s')"
    by (blast dest: processBlock_process)
  have "length processed = unat (produced * size_t_of_int (tsp_channelCount (lcp_processor s)))"
    using agree
    by (intro process_length [OF pr])
       (auto simp: channels_agree_def split: engine.splits option.splits)
  then have "length processed = unat (produced * ?spf)"
    using agree by (simp add: channels_agree_def)
  moreover have "unat produced * unat ?spf < 2 ^ 64"
    using fit by simp
  then have "unat (produced * ?spf) = unat produced * unat ?spf"
    by (simp add: unat_mult_lem [THEN iffD1])
  ultimately have len: "length processed = unat produced * unat ?spf"
    by simp
  then have "length processed + unat ?pending < 2 ^ 64"
    using fit by simp
  from processBlock_exact [OF pr this] call
  have out: "out = replicate (unat ?k) 0 @ processed @ replicate (unat (?pending - ?k)) 0"
    by simp
  have split: "unat ?k + unat (?pending - ?k) = unat ?pending"
    by (rule unat_pending_split) simp
  have l1: "length out = unat ?pending + unat produced * unat ?spf"
    using out split len by simp
  have l2: "0 \<le> lcp_channelCount s \<and> lcp_channelCount s < 2 ^ 31 \<longrightarrow>
              length out = unat ?pending + unat produced * nat (lcp_channelCount s)"
    using l1 by (auto simp: unat_size_t_of_int)
  have cl: "\<forall>output'. processBlock L input frames output' s = Some (produced, out, s')"
    using call by (simp add: processBlock_unfold)
  have ex: "\<exists>processed a b.
               process L input frames [] (lcp_processor s)
                 = Some (produced, processed, lcp_processor s')
               \<and> a + b = unat ?pending
               \<and> out = replicate a 0 @ processed @ replicate b 0"
    using pr out split by blast
  have z: "lcp_pendingLatencySamples s' = 0"
    using call by (rule processBlock_pending)
  have no_frames: "produced = 0 \<longrightarrow> out = replicate (unat ?pending) 0"
    using out len by auto
  have pt: "is_passthrough (lcp_processor s) \<longrightarrow>
              produced = frames
              \<and> processBlock L input 0 output s
                  = Some (0, replicate (unat ?pending) 0, s\<lparr>lcp_pendingLatencySamples := 0\<rparr>)"
    using pr by (auto simp: process_passthrough processBlock_zero_frames split: if_splits)
  show ?thesis
    using l1 l2 cl ex z no_frames pt by blast
qed

theorem processBlock_output_length_witness:
  "channels_agree (example_processor False 0 5)
   \<and> unat (lcp_pendingLatencySamples (example_processor False 0 5))
       + unat (2::size_t) * unat (size_t_of_int (lcp_channelCount (example_processor False 0 5)))
       < 2 ^ 64
   \<and> 0 \<le> lcp_channelCount (example_processor False 0 5)
   \<and> lcp_channelCount (example_processor False 0 5) < 2 ^ 31
   \<and> is_passthrough (lcp_processor (example_processor False 0 5))
   \<and> (\<exists>out s'. processBlock (echo_stretcher 0) [1, 2, 3, 4] 2 [9, 9]
                    (example_processor False 0 5) = Some (2, out, s')
                \<and> length out = 485 + 2 * 2
                \<and> lcp_pendingLatencySamples s' = 0)
   \<and> processBlock (echo_stretcher 0) [1, 2, 3, 4] 0 [9, 9] (example_processor False 0 5)
       = Some (0, replicate 485 0,
               (example_processor False 0 5)\<lparr>lcp_pendingLatencySamples := 0\<rparr>)"
proof -
  let ?s = "example_processor False 0 5"
  have agree: "channels_agree ?s" and pt: "is_passthrough (lcp_processor ?s)"
    by (simp_all add: eval_defs)
  have cc: "lcp_channelCount ?s = 2"
    by (simp add: eval_defs)
  have fit: "unat (lcp_pendingLatencySamples ?s)
               + unat (2::size_t) * unat (size_t_of_int (lcp_channelCount ?s)) < 2 ^ 64"
    by (simp add: example_pending cc size_t_of_int_def)
  obtain out s' where call:
    "processBlock (echo_stretcher 0) [1, 2, 3, 4] 2 [9, 9] ?s = Some (2, out, s')"
    using example_passthrough_call by blast
  from processBlock_output_length [OF agree call fit] pt
  have "length out = unat (lcp_pendingLatencySamples ?s)
                       + unat (2::size_t) * unat (size_t_of_int (lcp_channelCount ?s))"
    and "lcp_pendingLatencySamples s' = 0"
    and "processBlock (echo_stretcher 0) [1, 2, 3, 4] 0 [9, 9] ?s
           = Some (0, replicate (unat (lcp_pendingLatencySamples ?s)) 0,
                   ?s\<lparr>lcp_pendingLatencySamples := 0\<rparr>)"
    by blast+
  then have "length out = 485 + 2 * 2" and "lcp_pendingLatencySamples s' = 0"
    and "processBlock (echo_stretcher 0) [1, 2, 3, 4] 0 [9, 9] ?s
           = Some (0, replicate 485 0, ?s\<lparr>lcp_pendingLatencySamples := 0\<rparr>)"
    by (simp_all add: example_pending cc size_t_of_int_def)
  with agree fit cc pt call show ?thesis by auto
qed

subsection \<open>C10: a control update resets the quality options\<close>

text \<open>
  C10. After \<open>updateControls\<close> the parameters stored in the inner processor are the
  tempo ratio and pitch of the given controls and the default quality
  (0.5, 0.5, true). That also holds when a \<open>setParameters\<close> call had stored other
  parameters \<open>P\<close> just before: their quality is discarded.
\<close>

theorem updateControls_resets_quality:
  "getParameters (lcp_processor (updateControls L c s)) =
     \<lparr>tempoRatio = controls_tempoRatio c, pitchSemitones = controls_pitchSemitones c,
      quality = \<lparr>formantPreservation = 0.5, transientSensitivity = 0.5, highQuality = True\<rparr>\<rparr>
   \<and> getParameters (lcp_processor
         (updateControls L c (s\<lparr>lcp_processor := setParameters L P (lcp_processor s)\<rparr>))) =
     \<lparr>tempoRatio = controls_tempoRatio c, pitchSemitones = controls_pitchSemitones c,
      quality = \<lparr>formantPreservation = 0.5, transientSensitivity = 0.5, highQuality = True\<rparr>\<rparr>
   \<and> getParameters (setParameters L P (lcp_processor s)) = P"
  by (simp add: getParameters_def updateControls_fields setParameters_parameters
      StretchQuality_default_def)

theorem updateControls_resets_quality_witness:
  "getParameters
     (setParameters (echo_stretcher 0)
        \<lparr>tempoRatio = 2, pitchSemitones = 3,
         quality = \<lparr>formantPreservation = 0.9, transientSensitivity = 0.1,
                    highQuality = False\<rparr>\<rparr>
        (lcp_processor (example_processor False 0 5)))
     = \<lparr>tempoRatio = 2, pitchSemitones = 3,
        quality = \<lparr>formantPreservation = 0.9, transientSensitivity = 0.1,
                   highQuality = False\<rparr>\<rparr>
   \<and> getParameters (lcp_processor
        (updateControls (echo_stretcher 0) (example_controls 7)
           ((example_processor False 0 5)
              \<lparr>lcp_processor :=
                 setParameters (echo_stretcher 0)
                   \<lparr>tempoRatio = 2, pitchSemitones = 3,
                    quality = \<lparr>formantPreservation = 0.9, transientSensitivity = 0.1,
                               highQuality = False\<rparr>\<rparr>
                   (lcp_processor (example_processor False 0 5))\<rparr>)))
     = \<lparr>tempoRatio = 1.25, pitchSemitones = - 2,
        quality = \<lparr>formantPreservation = 0.5, transientSensitivity = 0.5,
                   highQuality = True\<rparr>\<rparr>"
  using updateControls_resets_quality
          [of "echo_stretcher 0" "example_controls 7" "example_processor False 0 5"
              "\<lparr>tempoRatio = 2, pitchSemitones = 3,
                quality = \<lparr>formantPreservation = 0.9, transientSensitivity = 0.1,
                           highQuality = False\<rparr>\<rparr>"]
  by (simp add: example_controls_def)

end
